theory Spec2Isabelle
  imports Complex_Main
begin

section \<open>The webhook pipeline of \<^verbatim>\<open>src/messengerbot.js\<close>\<close>

text \<open>
  \<^verbatim>\<open>MessengerBot._init\<close> registers five layers on an Express application:
  \<^verbatim>\<open>bodyParser.raw\<close> (line 66), the verification middleware (lines 68-75), the decode
  middleware (lines 77-85), the dispatch route \<^verbatim>\<open>all('*')\<close> (lines 87-102) and the error
  middleware (lines 104-109). The embedding has three parts: the JavaScript values and
  the three operations the handlers apply to them (property read, truthiness,
  \<^verbatim>\<open>for ... of\<close>); the handlers, each a function on the per-request context, with what
  \<^verbatim>\<open>res.send\<close> and \<^verbatim>\<open>res.sendStatus\<close> write; and the part of the Express router that decides
  which handler runs next.
\<close>

subsection \<open>JavaScript values\<close>

text \<open>
  A JavaScript number is an IEEE double. The program never computes with one; it only
  tests truthiness, so a finite double is kept as the rational it denotes (both zeros
  are \<open>Finite 0\<close>).
\<close>

datatype jsnumber = Finite rat | PosInfinity | NegInfinity | NaN

text \<open>
  The values \<^verbatim>\<open>JSON.parse\<close> returns, and \<^verbatim>\<open>undefined\<close>, which reading a missing
  property yields. An object is the list of its own properties, one pair for each key. A
  string is the list of its characters.
\<close>

datatype jsval =
    Undefined
  | JNull
  | JBool bool
  | JNum jsnumber
  | JStr string
  | JArr "jsval list"
  | JObj "(string \<times> jsval) list"

text \<open>
  The exceptions of this program: \<^verbatim>\<open>JSON.parse\<close> throws a SyntaxError; reading a
  property of \<^verbatim>\<open>undefined\<close> or \<^verbatim>\<open>null\<close> and iterating a value that is not iterable
  throw a TypeError; writing a second response throws Node's \<^verbatim>\<open>ERR_HTTP_HEADERS_SENT\<close>.
  A \<open>StatusError\<close> is an error object that carries an HTTP status: what
  \<^verbatim>\<open>bodyParser.raw\<close> passes to \<^verbatim>\<open>next\<close> when it refuses a body (413, 415, 400), and what
  Express raises, with status 400, when \<^verbatim>\<open>decodeURIComponent\<close> fails on the path of a
  route.
\<close>

datatype js_error = SyntaxError | TypeError | HeadersSentError | StatusError nat

text \<open>Truthiness, as \<^verbatim>\<open>if (v)\<close> and \<^verbatim>\<open>v && w\<close> test it.\<close>

fun truthy :: "jsval \<Rightarrow> bool" where
  "truthy Undefined = False"
| "truthy JNull = False"
| "truthy (JBool b) = b"
| "truthy (JNum (Finite q)) = (q \<noteq> 0)"
| "truthy (JNum PosInfinity) = True"
| "truthy (JNum NegInfinity) = True"
| "truthy (JNum NaN) = False"
| "truthy (JStr s) = (s \<noteq> [])"
| "truthy (JArr xs) = True"
| "truthy (JObj ps) = True"

text \<open>
  A property key that is a canonical array index: decimal digits, no leading zero
  unless the key is \<^verbatim>\<open>"0"\<close> itself.
\<close>

definition is_digit :: "char \<Rightarrow> bool" where
  "is_digit c = (48 \<le> (of_char c :: nat) \<and> (of_char c :: nat) \<le> 57)"

definition array_index :: "string \<Rightarrow> nat option" where
  "array_index k =
     (if k \<noteq> [] \<and> list_all is_digit k \<and> (hd k \<noteq> CHR ''0'' \<or> length k = 1)
      then Some (foldl (\<lambda>a c. 10 * a + (of_char c - 48)) 0 k)
      else None)"

text \<open>
  Reading a property, \<^verbatim>\<open>v.k\<close> or \<^verbatim>\<open>v[k]\<close>. On \<^verbatim>\<open>undefined\<close> and \<^verbatim>\<open>null\<close> it
  throws; on every other value a missing property reads as \<^verbatim>\<open>undefined\<close>. Arrays and
  strings have their indices and \<^verbatim>\<open>length\<close>. Properties inherited from the prototypes
  are left out: none of the six keys the program reads (\<^verbatim>\<open>entry\<close>, \<^verbatim>\<open>0\<close>,
  \<^verbatim>\<open>messaging\<close>, \<^verbatim>\<open>message\<close>, \<^verbatim>\<open>text\<close>, \<^verbatim>\<open>sender\<close>) names one.
\<close>

fun get :: "jsval \<Rightarrow> string \<Rightarrow> js_error + jsval" where
  "get Undefined k = Inl TypeError"
| "get JNull k = Inl TypeError"
| "get (JBool b) k = Inr Undefined"
| "get (JNum n) k = Inr Undefined"
| "get (JStr s) k =
     Inr (if k = ''length'' then JNum (Finite (of_nat (length s)))
          else case array_index k of
                 Some i \<Rightarrow> if i < length s then JStr [s ! i] else Undefined
               | None \<Rightarrow> Undefined)"
| "get (JArr xs) k =
     Inr (if k = ''length'' then JNum (Finite (of_nat (length xs)))
          else case array_index k of
                 Some i \<Rightarrow> if i < length xs then xs ! i else Undefined
               | None \<Rightarrow> Undefined)"
| "get (JObj ps) k = Inr (case map_of ps k of Some v \<Rightarrow> v | None \<Rightarrow> Undefined)"

text \<open>
  The values \<^verbatim>\<open>for (let result of v)\<close> binds, in order: the elements of an array, the
  characters of a string; any other value is not iterable.
\<close>

fun iterate :: "jsval \<Rightarrow> js_error + jsval list" where
  "iterate (JArr xs) = Inr xs"
| "iterate (JStr s) = Inr (map (\<lambda>c. JStr [c]) s)"
| "iterate v = Inl TypeError"

subsection \<open>Requests, responses, notifications\<close>

text \<open>
  A value of \<^verbatim>\<open>req.query\<close>, as Express's query parser builds it: a string, an array
  (a repeated parameter) or an object (a bracketed parameter).
\<close>

datatype qvalue = QStr string | QArr "qvalue list" | QObj "(string \<times> qvalue) list"

text \<open>
  A response body: a text, the JSON text of a value (\<^verbatim>\<open>res.send\<close> of an array or an
  object), no body at all, or the error page of Express's final handler.
\<close>

datatype payload = Text string | Json qvalue | Empty | ErrorPage

record response =
  res_status :: nat
  res_body :: payload

text \<open>
  What the cache validators of a request (\<^verbatim>\<open>If-None-Match\<close>, \<^verbatim>\<open>If-Modified-Since\<close>,
  \<^verbatim>\<open>Cache-Control\<close>) amount to in the freshness test of \<^verbatim>\<open>res.send\<close>, which compares
  them with the \<^verbatim>\<open>ETag\<close> Express computes from the body it is about to send: they
  match no response (a request with no validator, or one that says \<^verbatim>\<open>no-cache\<close>, or one
  with an \<^verbatim>\<open>If-Modified-Since\<close> alone, since this program sets no \<^verbatim>\<open>Last-Modified\<close>);
  they match every response (\<^verbatim>\<open>If-None-Match: *\<close>); or they list the tags of the given
  bodies, and match those.
\<close>

datatype conditional = Unconditional | MatchesAny | MatchesBodies "payload list"

text \<open>
  The request as Express and the handlers read it.
  \<^item> \<open>req_path\<close> is the outcome of \<^verbatim>\<open>decodeURIComponent\<close> on the path of the URL, which
    Express computes when it matches the route \<^verbatim>\<open>*\<close>: the decoded path, or the error it
    raises for a malformed escape such as \<^verbatim>\<open>/%E0%A4%A\<close>.
  \<^item> \<open>req_refused\<close> is the error \<^verbatim>\<open>bodyParser.raw\<close> passes to \<^verbatim>\<open>next\<close> when it refuses the
    body (too large, unsupported encoding, aborted), if it does.
  \<^item> \<open>req_body\<close> is the outcome of \<^verbatim>\<open>JSON.parse(req.body.toString('utf8'))\<close> on the body
    that \<^verbatim>\<open>bodyParser.raw\<close> stored: the parsed value, or the exception thrown. For a
    request with no body \<^verbatim>\<open>bodyParser.raw\<close> stores \<^verbatim>\<open>{}\<close>, whose text does not parse.
  The three are outcomes of library calls on the raw request.
\<close>

record request =
  req_method :: string
  req_path :: "js_error + string"
  req_query :: "(string \<times> qvalue) list"
  req_conditional :: conditional
  req_refused :: "js_error option"
  req_body :: "js_error + jsval"

record botConfig =
  pageAccessToken :: string
  verifyToken :: string

text \<open>What \<^verbatim>\<open>emit\<close> publishes: the event name with its argument.\<close>

datatype notification =
    is_Receive: Receive jsval
  | is_Message: Message (sender: jsval) (message: jsval) (raw: jsval)
  | is_Error: Error js_error

text \<open>
  The per-request state the handlers change: \<^verbatim>\<open>req.json\<close>, the response written so far
  (at most one), and the notifications emitted so far, oldest first. Subscribers are
  taken not to throw.
\<close>

record ctx =
  req_json :: jsval
  sent :: "response option"
  emitted :: "notification list"

definition init :: ctx where
  "init = \<lparr>req_json = Undefined, sent = None, emitted = []\<rparr>"

text \<open>
  The receiver of a call. An arrow function reads \<^verbatim>\<open>this\<close> from where it was written,
  here \<^verbatim>\<open>_init\<close>, whose receiver is the bot. A \<^verbatim>\<open>function\<close> expression reads the
  receiver of its own call; Express calls a handler as a plain function
  (\<^verbatim>\<open>fn(req, res, next)\<close>, \<^verbatim>\<open>fn(err, req, res, next)\<close>), so in this module (module code is
  strict) its \<^verbatim>\<open>this\<close> is \<^verbatim>\<open>undefined\<close>.
\<close>

datatype this_val = ThisUndefined | ThisBot

text \<open>
  \<^verbatim>\<open>this.emit(...)\<close>: on the bot it publishes; on \<^verbatim>\<open>undefined\<close> reading
  \<^verbatim>\<open>this.emit\<close> throws. (An \<^verbatim>\<open>error\<close> event published on a bot with no subscriber to
  it would be thrown instead; no call in the stack publishes one on the bot.)
\<close>

fun emit :: "this_val \<Rightarrow> notification \<Rightarrow> ctx \<Rightarrow> js_error + ctx" where
  "emit ThisBot n c = Inr (c\<lparr>emitted := emitted c @ [n]\<rparr>)"
| "emit ThisUndefined n c = Inl TypeError"

text \<open>
  \<^verbatim>\<open>req.fresh\<close>, as \<^verbatim>\<open>res.send\<close> reads it with the status \<open>code\<close> set and the body \<open>b\<close>
  at hand: only a GET or a HEAD, only a status 2xx or 304, and only when the validators
  match. A \<^verbatim>\<open>send\<close> with no argument computes no \<^verbatim>\<open>ETag\<close>, so a list of tags does not
  match it.
\<close>

definition validators_match :: "request \<Rightarrow> payload \<Rightarrow> bool" where
  "validators_match req b =
     (case req_conditional req of
        Unconditional \<Rightarrow> False
      | MatchesAny \<Rightarrow> True
      | MatchesBodies bs \<Rightarrow> b \<noteq> Empty \<and> b \<in> set bs)"

definition fresh :: "request \<Rightarrow> nat \<Rightarrow> payload \<Rightarrow> bool" where
  "fresh req code b =
     ((req_method req = ''GET'' \<or> req_method req = ''HEAD'')
      \<and> ((200 \<le> code \<and> code < 300) \<or> code = 304)
      \<and> validators_match req b)"

text \<open>
  What \<^verbatim>\<open>res.send\<close> does once it has its body: a fresh request turns the status into
  304; a status 204 or 304 drops the body, and so does a HEAD. On a response already
  written, setting the headers throws.
\<close>

definition express_send :: "request \<Rightarrow> nat \<Rightarrow> payload \<Rightarrow> ctx \<Rightarrow> js_error + ctx" where
  "express_send req code b c =
     (case sent c of
        Some r \<Rightarrow> Inl HeadersSentError
      | None \<Rightarrow>
          Inr (c\<lparr>sent := Some
            \<lparr>res_status = (if fresh req code b then 304 else code),
             res_body =
               (if fresh req code b \<or> code = 204 \<or> code = 304 \<or> req_method req = ''HEAD''
                then Empty else b)\<rparr>\<rparr>))"

text \<open>
  \<^verbatim>\<open>res.send(x)\<close> for \<^verbatim>\<open>x\<close> a value of \<^verbatim>\<open>req.query\<close> or \<^verbatim>\<open>undefined\<close>; the status is the
  default 200, which nothing in this program changes before a \<^verbatim>\<open>send\<close>.
\<close>

fun send_body :: "qvalue option \<Rightarrow> payload" where
  "send_body None = Empty"
| "send_body (Some (QStr s)) = Text s"
| "send_body (Some v) = Json v"

definition res_send :: "request \<Rightarrow> qvalue option \<Rightarrow> ctx \<Rightarrow> js_error + ctx" where
  "res_send req x c = express_send req 200 (send_body x) c"

text \<open>
  \<^verbatim>\<open>res.sendStatus(code)\<close>: it sets the status and sends its standard text, here for
  the two codes the program uses.
\<close>

definition status_text :: "nat \<Rightarrow> string" where
  "status_text code = (if code = 200 then ''OK'' else if code = 400 then ''Bad Request'' else '''')"

definition res_sendStatus :: "request \<Rightarrow> nat \<Rightarrow> ctx \<Rightarrow> js_error + ctx" where
  "res_sendStatus req code c = express_send req code (Text (status_text code)) c"

subsection \<open>The handlers\<close>

text \<open>
  How a handler hands control back to Express: it calls \<^verbatim>\<open>next()\<close> or \<^verbatim>\<open>next(err)\<close>, it
  returns without calling \<^verbatim>\<open>next\<close> (the request is over), or it throws.
\<close>

datatype outcome = CallNext "js_error option" | Returned | Threw js_error

type_synonym handler = "this_val \<Rightarrow> request \<Rightarrow> ctx \<Rightarrow> ctx \<times> outcome"

type_synonym error_handler = "this_val \<Rightarrow> js_error \<Rightarrow> request \<Rightarrow> ctx \<Rightarrow> ctx \<times> outcome"

text \<open>
  Each handler takes the \<^verbatim>\<open>this\<close> it reads as its first argument. An arrow function
  written where \<^verbatim>\<open>this\<close> is \<open>lexical\<close> ignores the receiver of its call.
\<close>

definition arrow :: "this_val \<Rightarrow> (this_val \<Rightarrow> 'a) \<Rightarrow> this_val \<Rightarrow> 'a" where
  "arrow lexical f receiver = f lexical"

text \<open>
  Line 66, \<^verbatim>\<open>bodyParser.raw({ type: '*/*' })\<close>: it stores the body and calls \<^verbatim>\<open>next()\<close>, or
  calls \<^verbatim>\<open>next(err)\<close> with its refusal.
\<close>

definition body_parser_raw :: handler where
  "body_parser_raw this req c = (c, CallNext (req_refused req))"

text \<open>
  Lines 68-75. \<^verbatim>\<open>this.botConfig\<close> is the frozen configuration of the bot; \<^verbatim>\<open>===\<close>
  between the token, a string, and a query value holds only for the same string.
\<close>

definition verify_middleware :: "botConfig \<Rightarrow> handler" where
  "verify_middleware cfg this req c =
     (if req_method req = ''GET'' then
        (case this of
           ThisUndefined \<Rightarrow> (c, Threw TypeError)
         | ThisBot \<Rightarrow>
             let isValid = (Some (QStr (verifyToken cfg)) = map_of (req_query req) ''hub.verify_token'')
             in (case (if isValid then res_send req (map_of (req_query req) ''hub.challenge'') c
                       else res_send req (Some (QStr ''Error'')) c) of
                   Inl e \<Rightarrow> (c, Threw e)
                 | Inr c' \<Rightarrow> (c', Returned)))
      else (c, CallNext None))"

text \<open>
  Lines 77-85. The promise chain stores the parsed value and calls \<^verbatim>\<open>next()\<close>; a
  rejection reaches \<^verbatim>\<open>.catch(next)\<close>, which calls \<^verbatim>\<open>next(err)\<close>.
\<close>

definition decode_middleware :: handler where
  "decode_middleware this req c =
     (case req_body req of
        Inr j \<Rightarrow> (c\<lparr>req_json := j\<rparr>, CallNext None)
      | Inl e \<Rightarrow> (c, CallNext (Some e)))"

text \<open>\<^verbatim>\<open>req.json.entry[0]\<close> and \<^verbatim>\<open>req.json.entry[0].messaging\<close>.\<close>

definition entry0 :: "jsval \<Rightarrow> js_error + jsval" where
  "entry0 j = (case get j ''entry'' of Inl e \<Rightarrow> Inl e | Inr en \<Rightarrow> get en ''0'')"

definition messaging :: "jsval \<Rightarrow> js_error + jsval" where
  "messaging j = (case entry0 j of Inl e \<Rightarrow> Inl e | Inr e0 \<Rightarrow> get e0 ''messaging'')"

text \<open>
  Line 88, \<^verbatim>\<open>req.json && req.json.entry[0] && req.json.entry[0].messaging\<close>, evaluated
  left to right: a falsy operand ends it, a throwing operand throws.
\<close>

definition guard :: "jsval \<Rightarrow> js_error + bool" where
  "guard j =
     (if \<not> truthy j then Inr False
      else case entry0 j of
             Inl e \<Rightarrow> Inl e
           | Inr e0 \<Rightarrow>
               if \<not> truthy e0 then Inr False
               else case messaging j of
                      Inl e \<Rightarrow> Inl e
                    | Inr m \<Rightarrow> Inr (truthy m))"

text \<open>
  Lines 90-98, the body of the \<^verbatim>\<open>for ... of\<close> loop over the remaining events. The
  context comes back with what was emitted before a throw.
\<close>

fun message_loop :: "this_val \<Rightarrow> jsval list \<Rightarrow> ctx \<Rightarrow> ctx \<times> js_error option" where
  "message_loop this [] c = (c, None)"
| "message_loop this (result # rest) c =
     (case get result ''message'' of
        Inl e \<Rightarrow> (c, Some e)
      | Inr msg \<Rightarrow>
          (case get msg ''text'' of
             Inl e \<Rightarrow> (c, Some e)
           | Inr text \<Rightarrow>
               if truthy text then
                 (case get result ''sender'' of
                    Inl e \<Rightarrow> (c, Some e)
                  | Inr sndr \<Rightarrow>
                      (case emit this (Message sndr text result) c of
                         Inl e \<Rightarrow> (c, Some e)
                       | Inr c' \<Rightarrow> message_loop this rest c'))
               else message_loop this rest c))"

text \<open>Lines 89-98, the body of the \<^verbatim>\<open>if\<close>.\<close>

definition dispatch_events :: "this_val \<Rightarrow> ctx \<Rightarrow> ctx \<times> js_error option" where
  "dispatch_events this c =
     (case messaging (req_json c) of
        Inl e \<Rightarrow> (c, Some e)
      | Inr m \<Rightarrow>
          (case emit this (Receive m) c of
             Inl e \<Rightarrow> (c, Some e)
           | Inr c1 \<Rightarrow>
               (case iterate m of
                  Inl e \<Rightarrow> (c1, Some e)
                | Inr evs \<Rightarrow> message_loop this evs c1)))"

text \<open>Lines 87-102.\<close>

definition dispatch_handler :: handler where
  "dispatch_handler this req c =
     (case guard (req_json c) of
        Inl e \<Rightarrow> (c, Threw e)
      | Inr g \<Rightarrow>
          (case (if g then dispatch_events this c else (c, None)) of
             (c1, Some e) \<Rightarrow> (c1, Threw e)
           | (c1, None) \<Rightarrow>
               (case res_sendStatus req 200 c1 of
                  Inl e \<Rightarrow> (c1, Threw e)
                | Inr c2 \<Rightarrow> (c2, CallNext None))))"

text \<open>Lines 104-109, a \<^verbatim>\<open>function\<close> expression: \<open>this\<close> is the receiver of the call.\<close>

definition error_middleware :: error_handler where
  "error_middleware this err req c =
     (case emit this (Error err) c of
        Inl e \<Rightarrow> (c, Threw e)
      | Inr c1 \<Rightarrow>
          (case res_sendStatus req 400 c1 of
             Inl e \<Rightarrow> (c1, Threw e)
           | Inr c2 \<Rightarrow> (c2, CallNext None)))"

subsection \<open>The Express router\<close>

text \<open>
  The stack of \<^verbatim>\<open>app.use\<close> and \<^verbatim>\<open>app.all\<close>: a handler of three parameters is a
  middleware, or the route \<^verbatim>\<open>all('*')\<close>; one of four parameters is an error middleware.
\<close>

datatype layer = Middleware handler | RouteAll handler | ErrorMiddleware error_handler

text \<open>
  Express's final handler, reached past the last layer. With a response already written
  it does nothing. Otherwise it answers 404 when no error is pending, and for a pending
  error the status the error carries if that is 4xx or 5xx, else 500; a HEAD gets no
  body.
\<close>

definition final_status :: "js_error option \<Rightarrow> nat" where
  "final_status err =
     (case err of
        None \<Rightarrow> 404
      | Some (StatusError s) \<Rightarrow> if 400 \<le> s \<and> s < 600 then s else 500
      | Some e \<Rightarrow> 500)"

definition finalhandler :: "js_error option \<Rightarrow> request \<Rightarrow> ctx \<Rightarrow> ctx" where
  "finalhandler err req c =
     (case sent c of
        Some r \<Rightarrow> c
      | None \<Rightarrow>
          c\<lparr>sent := Some \<lparr>res_status = final_status err,
                           res_body = (if req_method req = ''HEAD'' then Empty else ErrorPage)\<rparr>\<rparr>)"

text \<open>
  The router's \<^verbatim>\<open>next\<close>. With no error pending it runs middlewares and the route and
  skips error middlewares; with an error pending it does the opposite. Every handler is
  called as a plain function inside \<^verbatim>\<open>try\<close>/\<^verbatim>\<open>catch\<close>: what it throws becomes the pending
  error. A middleware is mounted on every path. The route \<^verbatim>\<open>all('*')\<close> takes every
  method, and to match it Express decodes the path: when that fails the route's handler
  is skipped and the failure becomes the pending error, unless one is pending already.
\<close>

fun router :: "layer list \<Rightarrow> js_error option \<Rightarrow> request \<Rightarrow> ctx \<Rightarrow> ctx" where
  "router [] err req c = finalhandler err req c"
| "router (Middleware h # ls) None req c =
     (case h ThisUndefined req c of
        (c', CallNext err) \<Rightarrow> router ls err req c'
      | (c', Threw e) \<Rightarrow> router ls (Some e) req c'
      | (c', Returned) \<Rightarrow> c')"
| "router (RouteAll h # ls) None req c =
     (case req_path req of
        Inl e \<Rightarrow> router ls (Some e) req c
      | Inr p \<Rightarrow>
          (case h ThisUndefined req c of
             (c', CallNext err) \<Rightarrow> router ls err req c'
           | (c', Threw e) \<Rightarrow> router ls (Some e) req c'
           | (c', Returned) \<Rightarrow> c'))"
| "router (ErrorMiddleware h # ls) None req c = router ls None req c"
| "router (Middleware h # ls) (Some e) req c = router ls (Some e) req c"
| "router (RouteAll h # ls) (Some e) req c = router ls (Some e) req c"
| "router (ErrorMiddleware h # ls) (Some e) req c =
     (case h ThisUndefined e req c of
        (c', CallNext err) \<Rightarrow> router ls err req c'
      | (c', Threw e') \<Rightarrow> router ls (Some e') req c'
      | (c', Returned) \<Rightarrow> c')"

text \<open>The stack \<^verbatim>\<open>_init\<close> builds, in registration order (lines 66-109).\<close>

definition layers :: "botConfig \<Rightarrow> layer list" where
  "layers cfg =
     [Middleware body_parser_raw,
      Middleware (arrow ThisBot (verify_middleware cfg)),
      Middleware (arrow ThisBot decode_middleware),
      RouteAll (arrow ThisBot dispatch_handler),
      ErrorMiddleware error_middleware]"

text \<open>One request through the stack: the response and the notifications it leaves.\<close>

definition pipeline :: "botConfig \<Rightarrow> request \<Rightarrow> ctx" where
  "pipeline cfg req = router (layers cfg) None req init"

subsection \<open>Reading one event\<close>

text \<open>
  What the loop body reads of an event: \<^verbatim>\<open>result.message.text\<close>, whether reading it
  throws, whether the \<^verbatim>\<open>if\<close> on it passes, and the notification it then builds,
  \<^verbatim>\<open>{ sender: result.sender, message: result.message.text, raw: result }\<close>.
\<close>

definition event_text :: "jsval \<Rightarrow> js_error + jsval" where
  "event_text ev = (case get ev ''message'' of Inl e \<Rightarrow> Inl e | Inr msg \<Rightarrow> get msg ''text'')"

definition readable :: "jsval \<Rightarrow> bool" where
  "readable ev = (case event_text ev of Inl e \<Rightarrow> False | Inr t \<Rightarrow> True)"

definition emits :: "jsval \<Rightarrow> bool" where
  "emits ev = (case event_text ev of Inl e \<Rightarrow> False | Inr t \<Rightarrow> truthy t)"

definition message_of :: "jsval \<Rightarrow> notification" where
  "message_of ev =
     Message (case get ev ''sender'' of Inl e \<Rightarrow> Undefined | Inr s \<Rightarrow> s)
             (case event_text ev of Inl e \<Rightarrow> Undefined | Inr t \<Rightarrow> t)
             ev"

subsection \<open>Sample inputs\<close>

text \<open>
  The configuration and the requests the concrete theorems below run: a bot with the
  tokens \<^verbatim>\<open>T1\<close> and \<^verbatim>\<open>V1\<close>; a request of a given method to \<^verbatim>\<open>/\<close>, with no query and
  no cache validator, whose body \<^verbatim>\<open>bodyParser.raw\<close> stored, with a given decode outcome;
  the GET of the handshake with its two query parameters; the webhook envelope
  \<^verbatim>\<open>{"entry":[{"messaging": m}]}\<close>; a messaging event with a text,
  \<^verbatim>\<open>{"sender":{"id": u},"message":{"text": t}}\<close>, and one with no \<^verbatim>\<open>message\<close> field,
  \<^verbatim>\<open>{"sender":{"id": u}}\<close>.
\<close>

abbreviation cfg1 :: botConfig where
  "cfg1 \<equiv> \<lparr>pageAccessToken = ''T1'', verifyToken = ''V1''\<rparr>"

abbreviation request_of :: "string \<Rightarrow> js_error + jsval \<Rightarrow> request" where
  "request_of m b \<equiv>
     \<lparr>req_method = m, req_path = Inr ''/'', req_query = [], req_conditional = Unconditional,
      req_refused = None, req_body = b\<rparr>"

abbreviation post :: "js_error + jsval \<Rightarrow> request" where
  "post b \<equiv> request_of ''POST'' b"

abbreviation handshake :: "string \<Rightarrow> string \<Rightarrow> request" where
  "handshake t ch \<equiv>
     \<lparr>req_method = ''GET'', req_path = Inr ''/'',
      req_query = [(''hub.verify_token'', QStr t), (''hub.challenge'', QStr ch)],
      req_conditional = Unconditional, req_refused = None, req_body = Inl SyntaxError\<rparr>"

abbreviation envelope :: "jsval \<Rightarrow> jsval" where
  "envelope m \<equiv> JObj [(''entry'', JArr [JObj [(''messaging'', m)]])]"

abbreviation text_event :: "string \<Rightarrow> string \<Rightarrow> jsval" where
  "text_event u t \<equiv>
     JObj [(''sender'', JObj [(''id'', JStr u)]), (''message'', JObj [(''text'', JStr t)])]"

abbreviation bare_event :: "string \<Rightarrow> jsval" where
  "bare_event u \<equiv> JObj [(''sender'', JObj [(''id'', JStr u)])]"

section \<open>Properties\<close>

subsection \<open>Property reads and the loop\<close>

lemma get_Inl: "get v k = Inl e \<Longrightarrow> e = TypeError \<and> (v = Undefined \<or> v = JNull)"
  by (cases v) auto

lemma get_same_failure: "get v k = Inr x \<Longrightarrow> \<exists>y. get v k' = Inr y"
  by (cases v) auto

lemma array_index_0: "array_index ''0'' = Some 0"
  by (simp add: array_index_def is_digit_def)

lemmas js_defs = guard_def entry0_def messaging_def array_index_0 event_text_def readable_def
  emits_def message_of_def

lemma guard_True_messaging: "guard j = Inr True \<Longrightarrow> \<exists>m. messaging j = Inr m \<and> truthy m"
  by (auto simp: guard_def split: if_splits sum.splits)

lemma not_readable: "get ev ''message'' = Inr Undefined \<Longrightarrow> \<not> readable ev"
  by (simp add: readable_def event_text_def)

lemma message_loop_bot:
  "message_loop ThisBot evs c =
     (c\<lparr>emitted := emitted c @ map message_of (filter emits (takeWhile readable evs))\<rparr>,
      if list_all readable evs then None else Some TypeError)"
proof (induction evs arbitrary: c)
  case Nil
  show ?case by simp
next
  case (Cons ev evs)
  show ?case
  proof (cases "get ev ''message''")
    case (Inl e)
    then have "e = TypeError" using get_Inl by blast
    with Inl show ?thesis by (simp add: readable_def event_text_def)
  next
    case msg: (Inr m)
    then obtain s where s: "get ev ''sender'' = Inr s" using get_same_failure by blast
    show ?thesis
    proof (cases "get m ''text''")
      case (Inl e)
      then have "e = TypeError" using get_Inl by blast
      with Inl msg show ?thesis by (simp add: readable_def event_text_def)
    next
      case (Inr t)
      with msg s show ?thesis
        by (simp add: Cons.IH readable_def event_text_def emits_def message_of_def)
    qed
  qed
qed

subsection \<open>Lists of notifications\<close>

lemma is_Receive_message_of: "filter is_Receive (map message_of evs) = []"
  by (induction evs) (simp_all add: message_of_def)

lemma is_Message_message_of: "filter is_Message (map message_of evs) = map message_of evs"
  by (induction evs) (simp_all add: message_of_def)

lemma list_all_is_Message: "list_all is_Message (map message_of evs)"
  by (induction evs) (simp_all add: message_of_def)

lemma Receive_neq_message_of: "Receive m \<noteq> message_of ev"
  by (simp add: message_of_def)

lemma message_of_inj: "message_of a = message_of b \<Longrightarrow> a = b"
  by (simp add: message_of_def)

lemma count_list_message_of: "count_list (map message_of evs) (message_of ev) = count_list evs ev"
  by (induction evs) (auto dest: message_of_inj)

lemma count_list_filter: "count_list (filter P xs) x = (if P x then count_list xs x else 0)"
  by (induction xs) auto

lemma takeWhile_all: "list_all P xs \<Longrightarrow> takeWhile P xs = xs"
  by (induction xs) simp_all

lemma takeWhile_stop: "\<not> P x \<Longrightarrow> takeWhile P (xs @ x # ys) = takeWhile P xs"
  by (induction xs) simp_all

subsection \<open>The stages of the stack\<close>

lemma fresh_not_GET_HEAD:
  "req_method req \<noteq> ''GET'' \<Longrightarrow> req_method req \<noteq> ''HEAD'' \<Longrightarrow> \<not> fresh req code b"
  by (simp add: fresh_def)

lemma fresh_400: "\<not> fresh req 400 b"
  by (simp add: fresh_def)

lemma error_stage:
  "router [ErrorMiddleware error_middleware] (Some e) req c = finalhandler (Some TypeError) req c"
  by (simp add: error_middleware_def)

lemmas stack_defs =
  pipeline_def layers_def arrow_def body_parser_raw_def verify_middleware_def
  decode_middleware_def dispatch_handler_def dispatch_events_def error_middleware_def
  finalhandler_def final_status_def res_send_def res_sendStatus_def express_send_def
  status_text_def init_def

lemma pipeline_refused:
  "req_refused req = Some e \<Longrightarrow>
   pipeline cfg req =
     \<lparr>req_json = Undefined,
      sent = Some \<lparr>res_status = 500,
                   res_body = (if req_method req = ''HEAD'' then Empty else ErrorPage)\<rparr>,
      emitted = []\<rparr>"
  by (simp add: stack_defs)

lemma pipeline_GET:
  "req_method req = ''GET'' \<Longrightarrow> req_refused req = None \<Longrightarrow>
   pipeline cfg req =
     \<lparr>req_json = Undefined,
      sent = Some
        (let b = (if map_of (req_query req) ''hub.verify_token'' = Some (QStr (verifyToken cfg))
                  then send_body (map_of (req_query req) ''hub.challenge'')
                  else Text ''Error'')
         in if validators_match req b then \<lparr>res_status = 304, res_body = Empty\<rparr>
            else \<lparr>res_status = 200, res_body = b\<rparr>),
      emitted = []\<rparr>"
  by (auto simp: stack_defs fresh_def Let_def)

lemma pipeline_not_GET:
  "req_method req \<noteq> ''GET'' \<Longrightarrow> req_refused req = None \<Longrightarrow>
   pipeline cfg req =
     router [Middleware (arrow ThisBot decode_middleware), RouteAll (arrow ThisBot dispatch_handler),
             ErrorMiddleware error_middleware] None req init"
  by (simp add: pipeline_def layers_def arrow_def body_parser_raw_def verify_middleware_def)

lemma pipeline_decode_failure:
  "req_method req \<noteq> ''GET'' \<Longrightarrow> req_refused req = None \<Longrightarrow> req_body req = Inl e \<Longrightarrow>
   pipeline cfg req =
     \<lparr>req_json = Undefined,
      sent = Some \<lparr>res_status = 500,
                   res_body = (if req_method req = ''HEAD'' then Empty else ErrorPage)\<rparr>,
      emitted = []\<rparr>"
  by (simp add: stack_defs)

lemma pipeline_path:
  "req_method req \<noteq> ''GET'' \<Longrightarrow> req_refused req = None \<Longrightarrow> req_body req = Inr j \<Longrightarrow>
   req_path req = Inl e \<Longrightarrow>
   pipeline cfg req =
     \<lparr>req_json = j,
      sent = Some \<lparr>res_status = 500,
                   res_body = (if req_method req = ''HEAD'' then Empty else ErrorPage)\<rparr>,
      emitted = []\<rparr>"
  by (simp add: stack_defs)

lemma pipeline_guard_throws:
  "req_method req \<noteq> ''GET'' \<Longrightarrow> req_refused req = None \<Longrightarrow> req_body req = Inr j \<Longrightarrow>
   req_path req = Inr p \<Longrightarrow> guard j = Inl e \<Longrightarrow>
   pipeline cfg req =
     \<lparr>req_json = j,
      sent = Some \<lparr>res_status = 500,
                   res_body = (if req_method req = ''HEAD'' then Empty else ErrorPage)\<rparr>,
      emitted = []\<rparr>"
  by (simp add: stack_defs)

lemma pipeline_guard_False:
  "req_method req \<noteq> ''GET'' \<Longrightarrow> req_refused req = None \<Longrightarrow> req_body req = Inr j \<Longrightarrow>
   req_path req = Inr p \<Longrightarrow> guard j = Inr False \<Longrightarrow>
   pipeline cfg req =
     \<lparr>req_json = j,
      sent = Some
        (if req_method req = ''HEAD''
         then \<lparr>res_status = (if validators_match req (Text ''OK'') then 304 else 200),
               res_body = Empty\<rparr>
         else \<lparr>res_status = 200, res_body = Text ''OK''\<rparr>),
      emitted = []\<rparr>"
  by (simp add: stack_defs fresh_def)

lemma pipeline_not_iterable:
  "req_method req \<noteq> ''GET'' \<Longrightarrow> req_refused req = None \<Longrightarrow> req_body req = Inr j \<Longrightarrow>
   req_path req = Inr p \<Longrightarrow> guard j = Inr True \<Longrightarrow> messaging j = Inr m \<Longrightarrow>
   iterate m = Inl e \<Longrightarrow>
   pipeline cfg req =
     \<lparr>req_json = j,
      sent = Some \<lparr>res_status = 500,
                   res_body = (if req_method req = ''HEAD'' then Empty else ErrorPage)\<rparr>,
      emitted = [Receive m]\<rparr>"
  by (simp add: stack_defs)

lemma pipeline_iterable:
  "req_method req \<noteq> ''GET'' \<Longrightarrow> req_refused req = None \<Longrightarrow> req_body req = Inr j \<Longrightarrow>
   req_path req = Inr p \<Longrightarrow> guard j = Inr True \<Longrightarrow> messaging j = Inr m \<Longrightarrow>
   iterate m = Inr evs \<Longrightarrow>
   pipeline cfg req =
     \<lparr>req_json = j,
      sent = Some
        (if list_all readable evs
         then (if req_method req = ''HEAD''
               then \<lparr>res_status = (if validators_match req (Text ''OK'') then 304 else 200),
                     res_body = Empty\<rparr>
               else \<lparr>res_status = 200, res_body = Text ''OK''\<rparr>)
         else \<lparr>res_status = 500,
               res_body = (if req_method req = ''HEAD'' then Empty else ErrorPage)\<rparr>),
      emitted = Receive m # map message_of (filter emits (takeWhile readable evs))\<rparr>"
  by (simp add: stack_defs fresh_def message_loop_bot)

subsection \<open>Only the verification middleware reads the query\<close>

lemma fresh_query: "fresh (req\<lparr>req_query := q\<rparr>) code b = fresh req code b"
  by (simp add: fresh_def validators_match_def)

lemma express_send_query:
  "express_send (req\<lparr>req_query := q\<rparr>) code b c = express_send req code b c"
  by (cases "sent c"; cases "fresh req code b") (simp_all add: express_send_def fresh_query)

lemma finalhandler_query:
  "finalhandler err (req\<lparr>req_query := q\<rparr>) c = finalhandler err req c"
  by (simp add: finalhandler_def)

lemma error_stage_query:
  "router [ErrorMiddleware error_middleware] err (req\<lparr>req_query := q\<rparr>) c =
   router [ErrorMiddleware error_middleware] err req c"
proof (cases err)
  case None
  then show ?thesis by (simp add: finalhandler_query)
next
  case (Some e)
  have "error_middleware ThisUndefined e (req\<lparr>req_query := q\<rparr>) c
          = error_middleware ThisUndefined e req c"
    by (simp add: error_middleware_def)
  with Some show ?thesis by (simp add: finalhandler_query)
qed

lemma res_sendStatus_query:
  "res_sendStatus (req\<lparr>req_query := q\<rparr>) code c = res_sendStatus req code c"
  by (simp add: res_sendStatus_def express_send_query)

lemma dispatch_handler_query:
  "dispatch_handler this (req\<lparr>req_query := q\<rparr>) c = dispatch_handler this req c"
  unfolding dispatch_handler_def res_sendStatus_query by (rule refl)

lemma dispatch_stage_query:
  "router [RouteAll (arrow ThisBot dispatch_handler), ErrorMiddleware error_middleware] err
     (req\<lparr>req_query := q\<rparr>) c =
   router [RouteAll (arrow ThisBot dispatch_handler), ErrorMiddleware error_middleware] err req c"
proof (cases err)
  case None
  obtain c' out where d: "dispatch_handler ThisBot req c = (c', out)"
    by (cases "dispatch_handler ThisBot req c")
  show ?thesis
  proof (cases "req_path req")
    case (Inl e)
    then show ?thesis by (simp add: None error_stage_query del: router.simps(7))
  next
    case (Inr p)
    then show ?thesis
      by (cases out)
        (simp_all add: None arrow_def dispatch_handler_query d error_stage_query
          del: router.simps(7))
  qed
next
  case (Some e)
  then show ?thesis by (simp add: error_stage_query del: router.simps(7))
qed

lemma query_unread:
  "router [Middleware (arrow ThisBot decode_middleware), RouteAll (arrow ThisBot dispatch_handler),
           ErrorMiddleware error_middleware] None (req\<lparr>req_query := q\<rparr>) c =
   router [Middleware (arrow ThisBot decode_middleware), RouteAll (arrow ThisBot dispatch_handler),
           ErrorMiddleware error_middleware] None req c"
  by (cases "req_body req")
    (simp_all add: arrow_def decode_middleware_def dispatch_stage_query
      del: router.simps(3) router.simps(6))

lemma pipeline_query:
  assumes "req_method req \<noteq> ''GET''"
  shows "pipeline cfg' (req\<lparr>req_query := q\<rparr>) = pipeline cfg req"
proof (cases "req_refused req")
  case (Some e)
  then show ?thesis by (simp add: pipeline_refused)
next
  case None
  from assms have "req_method (req\<lparr>req_query := q\<rparr>) \<noteq> ''GET''" by simp
  moreover from None have "req_refused (req\<lparr>req_query := q\<rparr>) = None" by simp
  ultimately have "pipeline cfg' (req\<lparr>req_query := q\<rparr>) =
     router [Middleware (arrow ThisBot decode_middleware), RouteAll (arrow ThisBot dispatch_handler),
             ErrorMiddleware error_middleware] None (req\<lparr>req_query := q\<rparr>) init"
    by (rule pipeline_not_GET)
  also have "\<dots> = router [Middleware (arrow ThisBot decode_middleware),
       RouteAll (arrow ThisBot dispatch_handler), ErrorMiddleware error_middleware] None req init"
    by (rule query_unread)
  also from assms None have "\<dots> = pipeline cfg req" by (rule pipeline_not_GET [symmetric])
  finally show ?thesis .
qed

subsection \<open>The shape of what one request emits\<close>

lemma emitted_shape:
  "case emitted (pipeline cfg req) of
     [] \<Rightarrow> True
   | n # ns \<Rightarrow> is_Receive n \<and> list_all is_Message ns"
proof (cases "req_refused req")
  case (Some e)
  then show ?thesis by (simp add: pipeline_refused)
next
  case acc: None
  show ?thesis
  proof (cases "req_method req = ''GET''")
    case True
    with acc show ?thesis by (simp add: pipeline_GET)
  next
    case nget: False
    show ?thesis
    proof (cases "req_body req")
      case (Inl e)
      with nget acc show ?thesis by (simp add: pipeline_decode_failure)
    next
      case body: (Inr j)
      show ?thesis
      proof (cases "req_path req")
        case (Inl e)
        with nget acc body show ?thesis by (simp add: pipeline_path)
      next
        case path: (Inr p)
        show ?thesis
        proof (cases "guard j")
          case (Inl e)
          with nget acc body path show ?thesis by (simp add: pipeline_guard_throws)
        next
          case g: (Inr b)
          show ?thesis
          proof (cases b)
            case False
            with nget acc body path g show ?thesis by (simp add: pipeline_guard_False)
          next
            case True
            with g have "guard j = Inr True" by simp
            then obtain m where m: "messaging j = Inr m" using guard_True_messaging by blast
            show ?thesis
            proof (cases "iterate m")
              case (Inl e)
              with nget acc body path g True m show ?thesis
                by (simp add: pipeline_not_iterable)
            next
              case (Inr evs)
              with nget acc body path g True m show ?thesis
                by (simp add: pipeline_iterable list_all_is_Message)
            qed
          qed
        qed
      qed
    qed
  qed
qed

section \<open>The claims\<close>

subsection \<open>C1: the verification handshake\<close>

text \<open>
  C1, as amended. For every GET request whose body \<^verbatim>\<open>bodyParser.raw\<close> accepts, nothing is
  emitted, and the response is: when the request's cache validators match the body about
  to be sent (\<^verbatim>\<open>If-None-Match: *\<close>, say), status 304 and no body, whatever the token;
  otherwise status 200, with the value of \<^verbatim>\<open>hub.challenge\<close> as the body when
  \<^verbatim>\<open>hub.verify_token\<close> is the stored token, and the fixed text \<^verbatim>\<open>Error\<close> when it is not. A
  request of any other method passes the verification middleware untouched (it only
  calls \<^verbatim>\<open>next()\<close>), and its result depends neither on the configuration nor on the
  query.
\<close>

theorem verification_handshake:
  "(req_method req = ''GET'' \<and> req_refused req = None \<longrightarrow>
      emitted (pipeline cfg req) = []
      \<and> sent (pipeline cfg req) =
          Some (let b = (if map_of (req_query req) ''hub.verify_token''
                              = Some (QStr (verifyToken cfg))
                         then send_body (map_of (req_query req) ''hub.challenge'')
                         else Text ''Error'')
                in if validators_match req b then \<lparr>res_status = 304, res_body = Empty\<rparr>
                   else \<lparr>res_status = 200, res_body = b\<rparr>))
   \<and> (req_method req \<noteq> ''GET'' \<longrightarrow>
        verify_middleware cfg this req c = (c, CallNext None)
      \<and> pipeline cfg req = pipeline cfg' (req\<lparr>req_query := q\<rparr>))"
  using pipeline_query [where req = req and cfg = cfg and cfg' = cfg' and q = q]
  by (simp add: pipeline_GET verify_middleware_def)

text \<open>
  The handshake \<^verbatim>\<open>GET /?hub.verify_token=V1&hub.challenge=xyz123\<close>; the same with
  \<^verbatim>\<open>If-None-Match: *\<close>; and a POST whose result a second configuration and another query
  leave unchanged.
\<close>

theorem verification_handshake_witness:
  "req_method (handshake ''V1'' ''xyz123'') = ''GET''
   \<and> req_refused (handshake ''V1'' ''xyz123'') = None
   \<and> emitted (pipeline cfg1 (handshake ''V1'' ''xyz123'')) = []
   \<and> sent (pipeline cfg1 (handshake ''V1'' ''xyz123''))
       = Some \<lparr>res_status = 200, res_body = Text ''xyz123''\<rparr>
   \<and> sent (pipeline cfg1 ((handshake ''V1'' ''xyz123'')\<lparr>req_conditional := MatchesAny\<rparr>))
       = Some \<lparr>res_status = 304, res_body = Empty\<rparr>
   \<and> req_method (post (Inr JNull)) \<noteq> ''GET''
   \<and> verify_middleware cfg1 ThisBot (post (Inr JNull)) init = (init, CallNext None)
   \<and> pipeline cfg1 (post (Inr JNull))
       = pipeline \<lparr>pageAccessToken = ''T2'', verifyToken = ''V2''\<rparr>
           ((post (Inr JNull))\<lparr>req_query := [(''hub.verify_token'', QStr ''V1'')]\<rparr>)"
  using
    verification_handshake [of "handshake ''V1'' ''xyz123''" cfg1]
    verification_handshake [of "(handshake ''V1'' ''xyz123'')\<lparr>req_conditional := MatchesAny\<rparr>" cfg1]
    verification_handshake [of "post (Inr JNull)" cfg1 ThisBot init
      "\<lparr>pageAccessToken = ''T2'', verifyToken = ''V2''\<rparr>" "[(''hub.verify_token'', QStr ''V1'')]"]
  by (simp add: validators_match_def)

text \<open>
  C1 as stated fails in its "only if": \<^verbatim>\<open>GET /?hub.verify_token=WRONG&hub.challenge=Error\<close>
  against the token \<^verbatim>\<open>V1\<close> is answered with the fixed text, which here is the value of
  \<^verbatim>\<open>hub.challenge\<close>, although the tokens differ.
\<close>

theorem verification_iff_counterexample:
  "sent (pipeline cfg1 (handshake ''WRONG'' ''Error''))
     = Some \<lparr>res_status = 200, res_body = send_body (Some (QStr ''Error''))\<rparr>
   \<and> map_of (req_query (handshake ''WRONG'' ''Error'')) ''hub.challenge'' = Some (QStr ''Error'')
   \<and> map_of (req_query (handshake ''WRONG'' ''Error'')) ''hub.verify_token''
       \<noteq> Some (QStr (verifyToken cfg1))"
  by (simp add: pipeline_GET validators_match_def)

subsection \<open>C2: a body that does not decode\<close>

text \<open>
  C2 does not hold of the code. A POST whose body is not JSON (\<^verbatim>\<open>not-json\<close>) reaches the
  error middleware, which is a \<^verbatim>\<open>function\<close> expression: called by Express its receiver
  is \<^verbatim>\<open>undefined\<close>, so \<^verbatim>\<open>this.emit('error', err)\<close> throws before anything is emitted or
  sent. No later layer handles the new error, and Express's final handler answers 500:
  no \<^verbatim>\<open>error\<close> notification, no 400.
\<close>

theorem decode_failure_answers_500:
  "error_middleware ThisUndefined SyntaxError (post (Inl SyntaxError)) init = (init, Threw TypeError)
   \<and> pipeline cfg1 (post (Inl SyntaxError))
     = \<lparr>req_json = Undefined, sent = Some \<lparr>res_status = 500, res_body = ErrorPage\<rparr>,
        emitted = []\<rparr>"
  by (simp add: pipeline_decode_failure error_middleware_def)

subsection \<open>C3: valid JSON of any shape\<close>

text \<open>
  C3 does not hold of the code. The body \<^verbatim>\<open>{}\<close> is valid JSON; the guard reads
  \<^verbatim>\<open>req.json.entry[0]\<close> with \<^verbatim>\<open>entry\<close> undefined and throws, the handler's
  \<^verbatim>\<open>res.sendStatus(200)\<close> is never reached, and the request is answered 500.
\<close>

theorem empty_object_answers_500:
  "guard (JObj []) = Inl TypeError
   \<and> pipeline cfg1 (post (Inr (JObj [])))
     = \<lparr>req_json = JObj [], sent = Some \<lparr>res_status = 500, res_body = ErrorPage\<rparr>,
        emitted = []\<rparr>"
  by (simp add: pipeline_guard_throws [where p = "''/''"] js_defs)

subsection \<open>C4: an envelope with a part missing\<close>

text \<open>
  C4 does not hold of the code where \<^verbatim>\<open>entry\<close> is absent. The guard tests
  \<^verbatim>\<open>req.json\<close>, \<^verbatim>\<open>entry[0]\<close> and \<^verbatim>\<open>messaging\<close> but not \<^verbatim>\<open>entry\<close> itself: for the body
  \<^verbatim>\<open>{"object":"page"}\<close> it throws, and the request is answered 500, not 200.
\<close>

theorem absent_entry_answers_500:
  "get (JObj [(''object'', JStr ''page'')]) ''entry'' = Inr Undefined
   \<and> guard (JObj [(''object'', JStr ''page'')]) = Inl TypeError
   \<and> pipeline cfg1 (post (Inr (JObj [(''object'', JStr ''page'')])))
     = \<lparr>req_json = JObj [(''object'', JStr ''page'')],
        sent = Some \<lparr>res_status = 500, res_body = ErrorPage\<rparr>, emitted = []\<rparr>"
  by (simp add: pipeline_guard_throws [where p = "''/''"] js_defs)

subsection \<open>C5: one message notification for each event with a text\<close>

text \<open>
  C5, as amended. Take a request that reaches the dispatch handler (it is not a GET,
  \<^verbatim>\<open>bodyParser.raw\<close> accepted its body, the body decodes, and the path of its URL decodes,
  so that the route runs), whose guard passes, and whose \<^verbatim>\<open>entry[0].messaging\<close> iterates
  as \<open>evs\<close> with \<^verbatim>\<open>message.text\<close> readable on every event. Then the \<^verbatim>\<open>message\<close>
  notifications are, one for one and in order, those of the events whose
  \<^verbatim>\<open>message.text\<close> is truthy, each carrying \<^verbatim>\<open>{ sender, message: text, raw: event }\<close>: the
  notification of an event occurs as often as the event does when its text is truthy,
  and never otherwise. Truthiness gates the emission, not presence: the empty string
  emits nothing.
\<close>

theorem message_per_truthy_text:
  assumes "req_method req \<noteq> ''GET''" and "req_refused req = None" and "req_body req = Inr j"
    and "req_path req = Inr p" and "guard j = Inr True"
    and "messaging j = Inr m" and "iterate m = Inr evs" and "list_all readable evs"
  shows "filter is_Message (emitted (pipeline cfg req)) = map message_of (filter emits evs)
       \<and> count_list (emitted (pipeline cfg req)) (message_of ev)
           = (if emits ev then count_list evs ev else 0)"
  using assms
  by (simp add: pipeline_iterable takeWhile_all is_Message_message_of
      count_list_message_of count_list_filter Receive_neq_message_of)

text \<open>One event, from \<^verbatim>\<open>u1\<close>, with the text \<^verbatim>\<open>hello\<close>, in a POST to \<^verbatim>\<open>/\<close>.\<close>

theorem message_per_truthy_text_witness:
  "req_method (post (Inr (envelope (JArr [text_event ''u1'' ''hello''])))) \<noteq> ''GET''
   \<and> req_refused (post (Inr (envelope (JArr [text_event ''u1'' ''hello''])))) = None
   \<and> req_path (post (Inr (envelope (JArr [text_event ''u1'' ''hello''])))) = Inr ''/''
   \<and> guard (envelope (JArr [text_event ''u1'' ''hello''])) = Inr True
   \<and> messaging (envelope (JArr [text_event ''u1'' ''hello'']))
       = Inr (JArr [text_event ''u1'' ''hello''])
   \<and> list_all readable [text_event ''u1'' ''hello'']
   \<and> filter is_Message
         (emitted (pipeline cfg1 (post (Inr (envelope (JArr [text_event ''u1'' ''hello''])))))) =
       [Message (JObj [(''id'', JStr ''u1'')]) (JStr ''hello'') (text_event ''u1'' ''hello'')]
   \<and> count_list
         (emitted (pipeline cfg1 (post (Inr (envelope (JArr [text_event ''u1'' ''hello'']))))))
         (Message (JObj [(''id'', JStr ''u1'')]) (JStr ''hello'') (text_event ''u1'' ''hello'')) = 1"
proof -
  have g: "guard (envelope (JArr [text_event ''u1'' ''hello''])) = Inr True"
    by (simp add: js_defs)
  have m: "messaging (envelope (JArr [text_event ''u1'' ''hello'']))
             = Inr (JArr [text_event ''u1'' ''hello''])"
    by (simp add: js_defs)
  have r: "list_all readable [text_event ''u1'' ''hello'']"
    by (simp add: js_defs)
  show ?thesis
    using message_per_truthy_text [of "post (Inr (envelope (JArr [text_event ''u1'' ''hello''])))"
        "envelope (JArr [text_event ''u1'' ''hello''])" "''/''" "JArr [text_event ''u1'' ''hello'']"
        "[text_event ''u1'' ''hello'']" cfg1 "text_event ''u1'' ''hello''", OF _ _ _ _ g m _ r] g m r
    by (simp add: js_defs)
qed

text \<open>
  C5 as stated fails on the empty string: the event's \<^verbatim>\<open>message.text\<close> is present, and
  the request emits the \<^verbatim>\<open>receive\<close> notification only.
\<close>

theorem empty_text_counterexample:
  "event_text (text_event ''u1'' '''') = Inr (JStr '''')
   \<and> emitted (pipeline cfg1 (post (Inr (envelope (JArr [text_event ''u1'' ''''])))))
      = [Receive (JArr [text_event ''u1'' ''''])]"
  by (simp add: pipeline_iterable [where m = "JArr [text_event ''u1'' '''']" and p = "''/''"]
      js_defs)

subsection \<open>C6: the receive notification\<close>

text \<open>
  C6, as amended. For every request the \<^verbatim>\<open>receive\<close> notifications are exactly one,
  carrying the value of \<^verbatim>\<open>entry[0].messaging\<close>, if and only if the request reaches the
  dispatch handler (it is not a GET, \<^verbatim>\<open>bodyParser.raw\<close> accepted its body, the body
  decodes, the path of its URL decodes) and the guard passes, that is \<^verbatim>\<open>req.json\<close>,
  \<^verbatim>\<open>entry[0]\<close> and \<^verbatim>\<open>entry[0].messaging\<close> are truthy; otherwise there is none. An empty
  array is truthy: the notification fires for an empty sequence too.
\<close>

theorem receive_once_iff_guard:
  "filter is_Receive (emitted (pipeline cfg req)) =
     (if req_method req = ''GET'' \<or> req_refused req \<noteq> None then []
      else case req_body req of
             Inl e \<Rightarrow> []
           | Inr j \<Rightarrow>
               (case req_path req of
                  Inl e \<Rightarrow> []
                | Inr p \<Rightarrow>
                    (case messaging j of
                       Inl e \<Rightarrow> []
                     | Inr m \<Rightarrow> if guard j = Inr True then [Receive m] else [])))"
proof (cases "req_refused req")
  case (Some e)
  then show ?thesis by (simp add: pipeline_refused)
next
  case acc: None
  show ?thesis
  proof (cases "req_method req = ''GET''")
    case True
    with acc show ?thesis by (simp add: pipeline_GET)
  next
    case nget: False
    show ?thesis
    proof (cases "req_body req")
      case (Inl e)
      with nget acc show ?thesis by (simp add: pipeline_decode_failure)
    next
      case body: (Inr j)
      show ?thesis
      proof (cases "req_path req")
        case (Inl e)
        with nget acc body show ?thesis by (simp add: pipeline_path)
      next
        case path: (Inr p)
        show ?thesis
        proof (cases "guard j")
          case (Inl e)
          with nget acc body path show ?thesis
            by (simp add: pipeline_guard_throws split: sum.splits)
        next
          case g: (Inr b)
          show ?thesis
          proof (cases b)
            case False
            with nget acc body path g show ?thesis
              by (simp add: pipeline_guard_False split: sum.splits)
          next
            case True
            with g have "guard j = Inr True" by simp
            then obtain m where m: "messaging j = Inr m" using guard_True_messaging by blast
            show ?thesis
            proof (cases "iterate m")
              case (Inl e)
              with nget acc body path g True m show ?thesis
                by (simp add: pipeline_not_iterable)
            next
              case (Inr evs)
              with nget acc body path g True m show ?thesis
                by (simp add: pipeline_iterable is_Receive_message_of)
            qed
          qed
        qed
      qed
    qed
  qed
qed

text \<open>
  Two events in the envelope: one \<^verbatim>\<open>receive\<close> notification with both. An envelope
  whose \<^verbatim>\<open>entry\<close> is the empty array: none. The two events again, in a POST to a path
  that does not decode (\<^verbatim>\<open>/%E0%A4%A\<close>): none.
\<close>

theorem receive_once_iff_guard_witness:
  "filter is_Receive
     (emitted (pipeline cfg1
        (post (Inr (envelope (JArr [text_event ''u1'' ''hi'', bare_event ''u2''])))))) =
     [Receive (JArr [text_event ''u1'' ''hi'', bare_event ''u2''])]
   \<and> filter is_Receive (emitted (pipeline cfg1 (post (Inr (JObj [(''entry'', JArr [])]))))) = []
   \<and> filter is_Receive
       (emitted (pipeline cfg1
          ((post (Inr (envelope (JArr [text_event ''u1'' ''hi'', bare_event ''u2'']))))
             \<lparr>req_path := Inl (StatusError 400)\<rparr>))) = []"
  using
    receive_once_iff_guard [of cfg1
      "post (Inr (envelope (JArr [text_event ''u1'' ''hi'', bare_event ''u2''])))"]
    receive_once_iff_guard [of cfg1 "post (Inr (JObj [(''entry'', JArr [])]))"]
    receive_once_iff_guard [of cfg1
      "(post (Inr (envelope (JArr [text_event ''u1'' ''hi'', bare_event ''u2'']))))
         \<lparr>req_path := Inl (StatusError 400)\<rparr>"]
  by (simp add: js_defs)

text \<open>
  C6 as stated fails on \<^verbatim>\<open>{"entry":[{"messaging":[]}]}\<close>: the extracted sequence is
  empty, and the \<^verbatim>\<open>receive\<close> notification fires, carrying the empty array.
\<close>

theorem empty_messaging_counterexample:
  "messaging (envelope (JArr [])) = Inr (JArr [])
   \<and> iterate (JArr []) = Inr []
   \<and> emitted (pipeline cfg1 (post (Inr (envelope (JArr []))))) = [Receive (JArr [])]"
  by (simp add: pipeline_iterable [where m = "JArr []" and p = "''/''"] js_defs)

subsection \<open>C7: the order of the notifications\<close>

text \<open>
  C7, as amended. Whatever the request, what it emits is nothing, or one \<^verbatim>\<open>receive\<close>
  notification followed by \<^verbatim>\<open>message\<close> notifications only: \<^verbatim>\<open>receive\<close> precedes every
  \<^verbatim>\<open>message\<close>. When the request reaches the dispatch handler (it is not a GET,
  \<^verbatim>\<open>bodyParser.raw\<close> accepted its body, the body decodes, the path of its URL decodes),
  the guard passes and \<^verbatim>\<open>message.text\<close> is readable on every event, the \<^verbatim>\<open>message\<close>
  notifications are those of the events whose text is truthy, in the order of the
  events, none moved, none merged, and none dropped but for a falsy text.
\<close>

theorem receive_first_then_messages_in_order:
  "(case emitted (pipeline cfg req) of
      [] \<Rightarrow> True
    | n # ns \<Rightarrow> is_Receive n \<and> list_all is_Message ns)
   \<and> (req_method req \<noteq> ''GET'' \<and> req_refused req = None \<and> req_body req = Inr j
        \<and> req_path req = Inr p \<and> guard j = Inr True
        \<and> messaging j = Inr m \<and> iterate m = Inr evs \<and> list_all readable evs \<longrightarrow>
      emitted (pipeline cfg req) = Receive m # map message_of (filter emits evs))"
  using emitted_shape [of cfg req]
  by (simp add: pipeline_iterable takeWhile_all)

text \<open>
  Three events, the second with a \<^verbatim>\<open>message\<close> that has no text: \<^verbatim>\<open>receive\<close> first, then
  the notifications of the first and the third, in that order.
\<close>

theorem receive_first_then_messages_in_order_witness:
  "req_method (post (Inr (envelope (JArr
       [text_event ''u1'' ''hi'', JObj [(''message'', JObj [])], text_event ''u3'' ''yo''])))) \<noteq> ''GET''
   \<and> req_refused (post (Inr (envelope (JArr
       [text_event ''u1'' ''hi'', JObj [(''message'', JObj [])], text_event ''u3'' ''yo''])))) = None
   \<and> req_path (post (Inr (envelope (JArr
       [text_event ''u1'' ''hi'', JObj [(''message'', JObj [])], text_event ''u3'' ''yo''])))) = Inr ''/''
   \<and> guard (envelope (JArr
       [text_event ''u1'' ''hi'', JObj [(''message'', JObj [])], text_event ''u3'' ''yo''])) = Inr True
   \<and> list_all readable
       [text_event ''u1'' ''hi'', JObj [(''message'', JObj [])], text_event ''u3'' ''yo'']
   \<and> emitted (pipeline cfg1 (post (Inr (envelope (JArr
       [text_event ''u1'' ''hi'', JObj [(''message'', JObj [])], text_event ''u3'' ''yo''])))))
     = [Receive (JArr
          [text_event ''u1'' ''hi'', JObj [(''message'', JObj [])], text_event ''u3'' ''yo'']),
        Message (JObj [(''id'', JStr ''u1'')]) (JStr ''hi'') (text_event ''u1'' ''hi''),
        Message (JObj [(''id'', JStr ''u3'')]) (JStr ''yo'') (text_event ''u3'' ''yo'')]"
  using receive_first_then_messages_in_order [of cfg1
      "post (Inr (envelope (JArr
         [text_event ''u1'' ''hi'', JObj [(''message'', JObj [])], text_event ''u3'' ''yo''])))"
      "envelope (JArr
         [text_event ''u1'' ''hi'', JObj [(''message'', JObj [])], text_event ''u3'' ''yo''])"
      "''/''"
      "JArr [text_event ''u1'' ''hi'', JObj [(''message'', JObj [])], text_event ''u3'' ''yo'']"
      "[text_event ''u1'' ''hi'', JObj [(''message'', JObj [])], text_event ''u3'' ''yo'']"]
  by (simp add: js_defs)

text \<open>
  C7 as stated fails in "no filtering beyond text presence": of two events whose
  \<^verbatim>\<open>message.text\<close> is present, the first with the empty string, only the second gets a
  \<^verbatim>\<open>message\<close> notification.
\<close>

theorem present_text_filtered_counterexample:
  "event_text (text_event ''u1'' '''') = Inr (JStr '''')
   \<and> event_text (text_event ''u2'' ''b'') = Inr (JStr ''b'')
   \<and> emitted (pipeline cfg1
        (post (Inr (envelope (JArr [text_event ''u1'' '''', text_event ''u2'' ''b''])))))
      = [Receive (JArr [text_event ''u1'' '''', text_event ''u2'' ''b'']),
         Message (JObj [(''id'', JStr ''u2'')]) (JStr ''b'') (text_event ''u2'' ''b'')]"
  by (simp add: pipeline_iterable
        [where m = "JArr [text_event ''u1'' '''', text_event ''u2'' ''b'']" and p = "''/''"]
      js_defs)

subsection \<open>C8: the statuses the platform sees\<close>

text \<open>
  C8 does not hold of the code. An envelope with one event that has no \<^verbatim>\<open>message\<close>
  field (a delivery receipt, say) makes the dispatch handler throw; the error middleware
  throws in turn on \<^verbatim>\<open>this.emit\<close>, and the request is answered 500, neither 200 nor 400.
\<close>

theorem bare_event_answers_500:
  "sent (pipeline cfg1 (post (Inr (envelope (JArr [bare_event ''u1''])))))
     = Some \<lparr>res_status = 500, res_body = ErrorPage\<rparr>
   \<and> emitted (pipeline cfg1 (post (Inr (envelope (JArr [bare_event ''u1''])))))
     = [Receive (JArr [bare_event ''u1''])]"
  by (simp add: pipeline_iterable [where m = "JArr [bare_event ''u1'']" and p = "''/''"] js_defs)

subsection \<open>C9: an event with no message field\<close>

text \<open>
  C9. Take a body whose guard passes and an event \<open>ev\<close> of its sequence, after the
  events \<open>earlier\<close> and before the events \<open>later\<close>, that has no \<^verbatim>\<open>message\<close> field. Then
  the dispatch handler, run on it, throws a TypeError, having written no response; it
  has emitted the \<^verbatim>\<open>receive\<close> notification, and \<^verbatim>\<open>message\<close> notifications only for events
  of an initial part of \<open>earlier\<close> (those before the first event on which
  \<^verbatim>\<open>message.text\<close> cannot be read), so none for \<open>ev\<close> or a later event. And whenever a
  request with that body reaches the dispatch handler (it is not a GET,
  \<^verbatim>\<open>bodyParser.raw\<close> accepted its body, the body decodes to it, the path of its URL
  decodes), the request continues in the error middleware, with that TypeError.
\<close>

theorem missing_message_throws:
  assumes "guard j = Inr True" and "messaging j = Inr m"
    and "iterate m = Inr (earlier @ ev # later)" and "get ev ''message'' = Inr Undefined"
  shows "dispatch_handler ThisBot req (init\<lparr>req_json := j\<rparr>) =
           (\<lparr>req_json = j, sent = None,
             emitted = Receive m # map message_of (filter emits (takeWhile readable earlier))\<rparr>,
            Threw TypeError)
       \<and> (req_method req \<noteq> ''GET'' \<and> req_refused req = None \<and> req_body req = Inr j
            \<and> req_path req = Inr p \<longrightarrow>
          pipeline cfg req =
            router [ErrorMiddleware error_middleware] (Some TypeError) req
              \<lparr>req_json = j, sent = None,
               emitted = Receive m # map message_of (filter emits (takeWhile readable earlier))\<rparr>)"
proof -
  from assms(4) have nr: "\<not> readable ev" by (rule not_readable)
  have d: "dispatch_handler ThisBot req (init\<lparr>req_json := j\<rparr>) =
           (\<lparr>req_json = j, sent = None,
             emitted = Receive m # map message_of (filter emits (takeWhile readable earlier))\<rparr>,
            Threw TypeError)"
    using assms(1-3) nr
    by (simp add: dispatch_handler_def dispatch_events_def message_loop_bot takeWhile_stop init_def)
  have "pipeline cfg req =
     (case dispatch_handler ThisBot req (init\<lparr>req_json := j\<rparr>) of
        (c', CallNext err) \<Rightarrow> router [ErrorMiddleware error_middleware] err req c'
      | (c', Threw e) \<Rightarrow> router [ErrorMiddleware error_middleware] (Some e) req c'
      | (c', Returned) \<Rightarrow> c')"
    if "req_method req \<noteq> ''GET''" and "req_refused req = None" and "req_body req = Inr j"
      and "req_path req = Inr p"
    using that
    by (simp add: pipeline_def layers_def arrow_def body_parser_raw_def verify_middleware_def
        decode_middleware_def init_def)
  with d show ?thesis by simp
qed

text \<open>
  Three events, the second with no \<^verbatim>\<open>message\<close>: \<^verbatim>\<open>receive\<close> and the first event's
  notification are out when the handler throws; the third event's never is.
\<close>

theorem missing_message_throws_witness:
  "guard (envelope (JArr
       [text_event ''u1'' ''hi'', bare_event ''u2'', text_event ''u3'' ''yo''])) = Inr True
   \<and> get (bare_event ''u2'') ''message'' = Inr Undefined
   \<and> dispatch_handler ThisBot
       (post (Inr (envelope (JArr
          [text_event ''u1'' ''hi'', bare_event ''u2'', text_event ''u3'' ''yo'']))))
       (init\<lparr>req_json := envelope (JArr
          [text_event ''u1'' ''hi'', bare_event ''u2'', text_event ''u3'' ''yo''])\<rparr>)
     = (\<lparr>req_json = envelope (JArr
            [text_event ''u1'' ''hi'', bare_event ''u2'', text_event ''u3'' ''yo'']),
         sent = None,
         emitted =
           [Receive (JArr [text_event ''u1'' ''hi'', bare_event ''u2'', text_event ''u3'' ''yo'']),
            Message (JObj [(''id'', JStr ''u1'')]) (JStr ''hi'') (text_event ''u1'' ''hi'')]\<rparr>,
        Threw TypeError)
   \<and> req_method (post (Inr (envelope (JArr
       [text_event ''u1'' ''hi'', bare_event ''u2'', text_event ''u3'' ''yo''])))) \<noteq> ''GET''
   \<and> req_refused (post (Inr (envelope (JArr
       [text_event ''u1'' ''hi'', bare_event ''u2'', text_event ''u3'' ''yo''])))) = None
   \<and> req_path (post (Inr (envelope (JArr
       [text_event ''u1'' ''hi'', bare_event ''u2'', text_event ''u3'' ''yo''])))) = Inr ''/''
   \<and> emitted (pipeline cfg1 (post (Inr (envelope (JArr
       [text_event ''u1'' ''hi'', bare_event ''u2'', text_event ''u3'' ''yo''])))))
     = [Receive (JArr [text_event ''u1'' ''hi'', bare_event ''u2'', text_event ''u3'' ''yo'']),
        Message (JObj [(''id'', JStr ''u1'')]) (JStr ''hi'') (text_event ''u1'' ''hi'')]"
  using missing_message_throws [of
      "envelope (JArr [text_event ''u1'' ''hi'', bare_event ''u2'', text_event ''u3'' ''yo''])"
      "JArr [text_event ''u1'' ''hi'', bare_event ''u2'', text_event ''u3'' ''yo'']"
      "[text_event ''u1'' ''hi'']" "bare_event ''u2''" "[text_event ''u3'' ''yo'']"
      "post (Inr (envelope (JArr
         [text_event ''u1'' ''hi'', bare_event ''u2'', text_event ''u3'' ''yo''])))"
      "''/''" cfg1]
  by (simp add: js_defs error_middleware_def finalhandler_def)

subsection \<open>C10: a body that parses to a falsy value\<close>

text \<open>
  C10, as amended. For every request that reaches the dispatch handler (it is not a GET,
  \<^verbatim>\<open>bodyParser.raw\<close> accepted its body, the path of its URL decodes) and whose body
  parses to a falsy value (\<^verbatim>\<open>null\<close>, \<^verbatim>\<open>false\<close>, \<^verbatim>\<open>0\<close> and the empty string are the ones
  JSON has), the guard is false, nothing is emitted, and the status is 200, but for a
  HEAD whose cache validators match, which is answered 304.
\<close>

theorem falsy_body_acknowledged:
  assumes "req_method req \<noteq> ''GET''" and "req_refused req = None" and "req_body req = Inr j"
    and "req_path req = Inr p" and "\<not> truthy j"
  shows "guard j = Inr False
       \<and> pipeline cfg req =
           \<lparr>req_json = j,
            sent = Some
              (if req_method req = ''HEAD''
               then \<lparr>res_status = (if validators_match req (Text ''OK'') then 304 else 200),
                     res_body = Empty\<rparr>
               else \<lparr>res_status = 200, res_body = Text ''OK''\<rparr>),
            emitted = []\<rparr>"
proof -
  from assms(5) have g: "guard j = Inr False" by (simp add: guard_def)
  with assms show ?thesis by (simp add: pipeline_guard_False)
qed

text \<open>
  The four falsy values of JSON, each in a POST to \<^verbatim>\<open>/\<close>, and \<^verbatim>\<open>null\<close> in a HEAD with
  \<^verbatim>\<open>If-None-Match: *\<close>.
\<close>

theorem falsy_body_acknowledged_witness:
  "\<not> truthy JNull \<and> \<not> truthy (JBool False) \<and> \<not> truthy (JNum (Finite 0)) \<and> \<not> truthy (JStr '''')
   \<and> req_method (post (Inr JNull)) \<noteq> ''GET'' \<and> req_refused (post (Inr JNull)) = None
   \<and> req_path (post (Inr JNull)) = Inr ''/''
   \<and> pipeline cfg1 (post (Inr JNull)) =
       \<lparr>req_json = JNull, sent = Some \<lparr>res_status = 200, res_body = Text ''OK''\<rparr>, emitted = []\<rparr>
   \<and> pipeline cfg1 (post (Inr (JBool False))) =
       \<lparr>req_json = JBool False, sent = Some \<lparr>res_status = 200, res_body = Text ''OK''\<rparr>,
        emitted = []\<rparr>
   \<and> pipeline cfg1 (post (Inr (JNum (Finite 0)))) =
       \<lparr>req_json = JNum (Finite 0), sent = Some \<lparr>res_status = 200, res_body = Text ''OK''\<rparr>,
        emitted = []\<rparr>
   \<and> pipeline cfg1 (post (Inr (JStr ''''))) =
       \<lparr>req_json = JStr '''', sent = Some \<lparr>res_status = 200, res_body = Text ''OK''\<rparr>,
        emitted = []\<rparr>
   \<and> pipeline cfg1 ((request_of ''HEAD'' (Inr JNull))\<lparr>req_conditional := MatchesAny\<rparr>) =
       \<lparr>req_json = JNull, sent = Some \<lparr>res_status = 304, res_body = Empty\<rparr>, emitted = []\<rparr>"
  using falsy_body_acknowledged [of "post (Inr JNull)" JNull "''/''" cfg1]
    falsy_body_acknowledged [of "post (Inr (JBool False))" "JBool False" "''/''" cfg1]
    falsy_body_acknowledged [of "post (Inr (JNum (Finite 0)))" "JNum (Finite 0)" "''/''" cfg1]
    falsy_body_acknowledged [of "post (Inr (JStr ''''))" "JStr ''''" "''/''" cfg1]
    falsy_body_acknowledged [of "(request_of ''HEAD'' (Inr JNull))\<lparr>req_conditional := MatchesAny\<rparr>"
      JNull "''/''" cfg1]
  by (simp add: validators_match_def)

text \<open>
  C10 as stated fails on a POST of \<^verbatim>\<open>null\<close> to a path that does not decode
  (\<^verbatim>\<open>/%E0%A4%A\<close>): Express skips the route, the dispatch handler never runs, and the
  request is answered 500.
\<close>

theorem falsy_body_undecodable_path_counterexample:
  "\<not> truthy JNull
   \<and> req_method ((post (Inr JNull))\<lparr>req_path := Inl (StatusError 400)\<rparr>) \<noteq> ''GET''
   \<and> req_body ((post (Inr JNull))\<lparr>req_path := Inl (StatusError 400)\<rparr>) = Inr JNull
   \<and> pipeline cfg1 ((post (Inr JNull))\<lparr>req_path := Inl (StatusError 400)\<rparr>) =
       \<lparr>req_json = JNull, sent = Some \<lparr>res_status = 500, res_body = ErrorPage\<rparr>, emitted = []\<rparr>"
  by (simp add: pipeline_path [where e = "StatusError 400"])

section \<open>Further properties of the pipeline\<close>

text \<open>
  An envelope whose \<^verbatim>\<open>entry\<close> is there but whose \<^verbatim>\<open>entry[0]\<close>, or whose
  \<^verbatim>\<open>entry[0].messaging\<close>, is absent, in a request that reaches the dispatch handler:
  nothing is emitted and the status is 200 (304 for a HEAD whose validators match).
\<close>

theorem absent_entry0_or_messaging_acknowledged:
  assumes "req_method req \<noteq> ''GET''" and "req_refused req = None" and "req_body req = Inr j"
    and "req_path req = Inr p"
    and "get j ''entry'' = Inr en" and "get en ''0'' = Inr e0"
    and "e0 = Undefined \<or> get e0 ''messaging'' = Inr Undefined"
  shows "pipeline cfg req =
           \<lparr>req_json = j,
            sent = Some
              (if req_method req = ''HEAD''
               then \<lparr>res_status = (if validators_match req (Text ''OK'') then 304 else 200),
                     res_body = Empty\<rparr>
               else \<lparr>res_status = 200, res_body = Text ''OK''\<rparr>),
            emitted = []\<rparr>"
proof -
  from assms(5-7) have "guard j = Inr False"
    by (auto simp: guard_def entry0_def messaging_def)
  with assms(1-4) show ?thesis by (rule pipeline_guard_False)
qed

theorem absent_entry0_or_messaging_acknowledged_witness:
  "req_method (post (Inr (JObj [(''entry'', JArr [])]))) \<noteq> ''GET''
   \<and> req_refused (post (Inr (JObj [(''entry'', JArr [])]))) = None
   \<and> req_path (post (Inr (JObj [(''entry'', JArr [])]))) = Inr ''/''
   \<and> get (JObj [(''entry'', JArr [])]) ''entry'' = Inr (JArr [])
   \<and> get (JArr []) ''0'' = Inr Undefined
   \<and> pipeline cfg1 (post (Inr (JObj [(''entry'', JArr [])]))) =
       \<lparr>req_json = JObj [(''entry'', JArr [])],
        sent = Some \<lparr>res_status = 200, res_body = Text ''OK''\<rparr>, emitted = []\<rparr>
   \<and> get (JObj [(''entry'', JArr [JObj []])]) ''entry'' = Inr (JArr [JObj []])
   \<and> get (JArr [JObj []]) ''0'' = Inr (JObj [])
   \<and> get (JObj []) ''messaging'' = Inr Undefined
   \<and> pipeline cfg1 (post (Inr (JObj [(''entry'', JArr [JObj []])]))) =
       \<lparr>req_json = JObj [(''entry'', JArr [JObj []])],
        sent = Some \<lparr>res_status = 200, res_body = Text ''OK''\<rparr>, emitted = []\<rparr>"
  using
    absent_entry0_or_messaging_acknowledged [of "post (Inr (JObj [(''entry'', JArr [])]))"
      "JObj [(''entry'', JArr [])]" "''/''" "JArr []" Undefined cfg1]
    absent_entry0_or_messaging_acknowledged [of "post (Inr (JObj [(''entry'', JArr [JObj []])]))"
      "JObj [(''entry'', JArr [JObj []])]" "''/''" "JArr [JObj []]" "JObj []" cfg1]
  by (simp add: array_index_0)

text \<open>
  Every request gets one response, and its status is 200, 304 or 500: the 400 of the
  error middleware is never sent.
\<close>

theorem one_response_200_304_or_500:
  "\<exists>r. sent (pipeline cfg req) = Some r
      \<and> (res_status r = 200 \<or> res_status r = 304 \<or> res_status r = 500)"
proof (cases "req_refused req")
  case (Some e)
  then show ?thesis by (simp add: pipeline_refused)
next
  case acc: None
  show ?thesis
  proof (cases "req_method req = ''GET''")
    case True
    with acc show ?thesis by (simp add: pipeline_GET Let_def)
  next
    case nget: False
    show ?thesis
    proof (cases "req_body req")
      case (Inl e)
      with nget acc show ?thesis by (simp add: pipeline_decode_failure)
    next
      case body: (Inr j)
      show ?thesis
      proof (cases "req_path req")
        case (Inl e)
        with nget acc body show ?thesis by (simp add: pipeline_path)
      next
        case path: (Inr p)
        show ?thesis
        proof (cases "guard j")
          case (Inl e)
          with nget acc body path show ?thesis by (simp add: pipeline_guard_throws)
        next
          case g: (Inr b)
          show ?thesis
          proof (cases b)
            case False
            with nget acc body path g show ?thesis by (simp add: pipeline_guard_False)
          next
            case True
            with g have "guard j = Inr True" by simp
            then obtain m where m: "messaging j = Inr m" using guard_True_messaging by blast
            show ?thesis
            proof (cases "iterate m")
              case (Inl e)
              with nget acc body path g True m show ?thesis
                by (simp add: pipeline_not_iterable)
            next
              case (Inr evs)
              with nget acc body path g True m show ?thesis
                by (simp add: pipeline_iterable)
            qed
          qed
        qed
      qed
    qed
  qed
qed

text \<open>
  When the request reaches the dispatch handler, the guard passes and \<^verbatim>\<open>message.text\<close>
  is readable on every event of the sequence, the status is 200 (304 for a HEAD whose
  validators match).
\<close>

theorem readable_events_acknowledged:
  assumes "req_method req \<noteq> ''GET''" and "req_refused req = None" and "req_body req = Inr j"
    and "req_path req = Inr p" and "guard j = Inr True"
    and "messaging j = Inr m" and "iterate m = Inr evs" and "list_all readable evs"
  shows "sent (pipeline cfg req) =
           Some (if req_method req = ''HEAD''
                 then \<lparr>res_status = (if validators_match req (Text ''OK'') then 304 else 200),
                       res_body = Empty\<rparr>
                 else \<lparr>res_status = 200, res_body = Text ''OK''\<rparr>)"
  using assms by (simp add: pipeline_iterable)

theorem readable_events_acknowledged_witness:
  "req_method (post (Inr (envelope (JArr [text_event ''u1'' ''hello''])))) \<noteq> ''GET''
   \<and> req_refused (post (Inr (envelope (JArr [text_event ''u1'' ''hello''])))) = None
   \<and> req_path (post (Inr (envelope (JArr [text_event ''u1'' ''hello''])))) = Inr ''/''
   \<and> guard (envelope (JArr [text_event ''u1'' ''hello''])) = Inr True
   \<and> list_all readable [text_event ''u1'' ''hello'']
   \<and> sent (pipeline cfg1 (post (Inr (envelope (JArr [text_event ''u1'' ''hello''])))))
       = Some \<lparr>res_status = 200, res_body = Text ''OK''\<rparr>"
  using readable_events_acknowledged [of
      "post (Inr (envelope (JArr [text_event ''u1'' ''hello''])))"
      "envelope (JArr [text_event ''u1'' ''hello''])" "''/''" "JArr [text_event ''u1'' ''hello'']"
      "[text_event ''u1'' ''hello'']" cfg1]
  by (simp add: js_defs)

text \<open>
  A body that \<^verbatim>\<open>bodyParser.raw\<close> stored and that does not decode, for any method but GET
  and any exception of the parser: nothing is emitted and the status is 500.
\<close>

theorem decode_failure_never_400:
  assumes "req_method req \<noteq> ''GET''" and "req_refused req = None" and "req_body req = Inl e"
  shows "emitted (pipeline cfg req) = []
       \<and> sent (pipeline cfg req) =
           Some \<lparr>res_status = 500,
                 res_body = (if req_method req = ''HEAD'' then Empty else ErrorPage)\<rparr>"
  using assms by (simp add: pipeline_decode_failure)

theorem decode_failure_never_400_witness:
  "req_method (request_of ''PUT'' (Inl SyntaxError)) \<noteq> ''GET''
   \<and> req_refused (request_of ''PUT'' (Inl SyntaxError)) = None
   \<and> emitted (pipeline cfg1 (request_of ''PUT'' (Inl SyntaxError))) = []
   \<and> sent (pipeline cfg1 (request_of ''PUT'' (Inl SyntaxError)))
       = Some \<lparr>res_status = 500, res_body = ErrorPage\<rparr>"
  using decode_failure_never_400 [of "request_of ''PUT'' (Inl SyntaxError)" SyntaxError cfg1]
  by simp

text \<open>
  A request that is not a GET, whose body decodes, to a path that does not decode:
  Express skips the route, so the dispatch handler never runs; nothing is emitted and the
  status is 500.
\<close>

theorem undecodable_path_skips_route:
  assumes "req_method req \<noteq> ''GET''" and "req_refused req = None" and "req_body req = Inr j"
    and "req_path req = Inl e"
  shows "emitted (pipeline cfg req) = []
       \<and> sent (pipeline cfg req) =
           Some \<lparr>res_status = 500,
                 res_body = (if req_method req = ''HEAD'' then Empty else ErrorPage)\<rparr>"
  using assms by (simp add: pipeline_path)

theorem undecodable_path_skips_route_witness:
  "req_method ((post (Inr (envelope (JArr [text_event ''u1'' ''hello'']))))
       \<lparr>req_path := Inl (StatusError 400)\<rparr>) \<noteq> ''GET''
   \<and> emitted (pipeline cfg1 ((post (Inr (envelope (JArr [text_event ''u1'' ''hello'']))))
       \<lparr>req_path := Inl (StatusError 400)\<rparr>)) = []
   \<and> sent (pipeline cfg1 ((post (Inr (envelope (JArr [text_event ''u1'' ''hello'']))))
       \<lparr>req_path := Inl (StatusError 400)\<rparr>))
       = Some \<lparr>res_status = 500, res_body = ErrorPage\<rparr>"
  using undecodable_path_skips_route [of
      "(post (Inr (envelope (JArr [text_event ''u1'' ''hello'']))))
         \<lparr>req_path := Inl (StatusError 400)\<rparr>"
      "envelope (JArr [text_event ''u1'' ''hello''])" "StatusError 400" cfg1]
  by simp

text \<open>
  A request whose body \<^verbatim>\<open>bodyParser.raw\<close> refuses, of any method: no handler of the bot
  but the error middleware runs; nothing is emitted and the status is 500.
\<close>

theorem refused_body_answers_500:
  assumes "req_refused req = Some e"
  shows "emitted (pipeline cfg req) = []
       \<and> sent (pipeline cfg req) =
           Some \<lparr>res_status = 500,
                 res_body = (if req_method req = ''HEAD'' then Empty else ErrorPage)\<rparr>"
  using assms by (simp add: pipeline_refused)

theorem refused_body_answers_500_witness:
  "req_refused ((handshake ''V1'' ''xyz123'')\<lparr>req_refused := Some (StatusError 413)\<rparr>)
     = Some (StatusError 413)
   \<and> emitted (pipeline cfg1
       ((handshake ''V1'' ''xyz123'')\<lparr>req_refused := Some (StatusError 413)\<rparr>)) = []
   \<and> sent (pipeline cfg1
       ((handshake ''V1'' ''xyz123'')\<lparr>req_refused := Some (StatusError 413)\<rparr>))
       = Some \<lparr>res_status = 500, res_body = ErrorPage\<rparr>"
  using refused_body_answers_500 [of
      "(handshake ''V1'' ''xyz123'')\<lparr>req_refused := Some (StatusError 413)\<rparr>"
      "StatusError 413" cfg1]
  by simp

end
